theory Spec2Isabelle
  imports Main "HOL-Library.Word"
begin

section \<open>Data model\<close>

text \<open>
  The contract \<^verbatim>\<open>PrivyPlay.sol\<close> keeps, per player address, five ciphertext handles
  and one plaintext flag.
\<close>

type_synonym address = "160 word"
type_synonym bytes = "8 word list"

text \<open>
  The two kinds of principal of the access control registry: the contract itself
  (\<^verbatim>\<open>FHE.allowThis\<close>) and an external account (\<^verbatim>\<open>FHE.allow(h, msg.sender)\<close>).
\<close>

datatype principal = This | Account address

text \<open>
  The ways a call can fail. The first five are the \<^verbatim>\<open>require\<close> messages of the
  contract ("No ETH sent", "Amount too small", "Points overflow", "Game already active",
  "No active game"); \<open>ArithmeticOverflow\<close> is the panic of Solidity 0.8 checked
  arithmetic; \<open>InvalidProof\<close> is the rejection of \<^verbatim>\<open>FHE.fromExternal\<close>.
\<close>

datatype error =
    NoEthSent
  | AmountTooSmall
  | PointsOverflow
  | GameAlreadyActive
  | NoActiveGame
  | InvalidProof
  | ArithmeticOverflow

datatype event =
    PointsPurchased address nat nat
  | GameStarted address
  | GuessSubmitted address

definition POINTS_PER_ETH :: nat where
  "POINTS_PER_ETH = 1000000"

definition PLAY_COST :: "64 word" where
  "PLAY_COST = 100"

definition WIN_REWARD :: "64 word" where
  "WIN_REWARD = 1000"

definition ether :: nat where
  "ether = 1000000000000000000"

section \<open>The ciphertext engine\<close>

text \<open>
  Modelled from the spec: the FHE library (\<^verbatim>\<open>@fhevm/solidity/lib/FHE.sol\<close>) is an
  external dependency, absent from the repository. Section 4.1 of the specification gives
  its interface: every operation takes ciphertext handles and returns the handle of a new
  ciphertext, never a plaintext; a handle is immutable once produced, and a value is
  replaced by producing a new handle and rebinding it. A handle is modelled as the name of
  the ciphertext it refers to: the operation that produced it, applied to the handles it
  was produced from. The three types \<^verbatim>\<open>euint8\<close>, \<^verbatim>\<open>euint64\<close> and \<^verbatim>\<open>ebool\<close> of
  the library are three datatypes; the first constructor of each is the handle of a
  storage slot that was never written (the all-zero \<^verbatim>\<open>bytes32\<close>).

  \<^item> \<open>asEuint8 w\<close>, \<open>asEuint64 w\<close>: the encryption of a plaintext of the contract;
  \<^item> \<open>randEuint8 k n v\<close>: the \<open>k\<close>-th draw of the engine, bounded by \<open>n\<close>, whose
    plaintext is \<open>v\<close> (the contract of the engine is \<open>v < n\<close>);
  \<^item> \<open>fromExternal h b\<close>: the imported external ciphertext \<open>h\<close>, whose plaintext is
    \<open>b\<close>.
\<close>

datatype euint8 =
    uninitialized8
  | asEuint8 "8 word"
  | add8 euint8 euint8
  | randEuint8 nat "8 word" "8 word"

datatype euint64 =
    uninitialized64
  | asEuint64 "64 word"
  | add64 euint64 euint64
  | sub64 euint64 euint64
  | select64 ebool euint64 euint64
and ebool =
    uninitializedBool
  | ge8 euint8 euint8
  | ge64 euint64 euint64
  | eqBool ebool ebool
  | fromExternal "256 word" bool

text \<open>
  The plaintext behind a handle: what its owner obtains by decrypting it. The handle that
  was never written stands for zero (numeric) or for an absent value (boolean, read as
  false). Arithmetic is that of the width of the ciphertext: it wraps around.
\<close>

fun dec8 :: "euint8 \<Rightarrow> 8 word" where
  "dec8 uninitialized8 = 0"
| "dec8 (asEuint8 w) = w"
| "dec8 (add8 a b) = dec8 a + dec8 b"
| "dec8 (randEuint8 k n v) = v"

fun dec64 :: "euint64 \<Rightarrow> 64 word"
  and decBool :: "ebool \<Rightarrow> bool" where
  "dec64 uninitialized64 = 0"
| "dec64 (asEuint64 w) = w"
| "dec64 (add64 a b) = dec64 a + dec64 b"
| "dec64 (sub64 a b) = dec64 a - dec64 b"
| "dec64 (select64 c a b) = (if decBool c then dec64 a else dec64 b)"
| "decBool uninitializedBool = False"
| "decBool (ge8 a b) = (dec8 b \<le> dec8 a)"
| "decBool (ge64 a b) = (dec64 b \<le> dec64 a)"
| "decBool (eqBool a b) = (decBool a = decBool b)"
| "decBool (fromExternal h b) = b"

text \<open>
  The access control registry relates a handle of any type (the \<^verbatim>\<open>bytes32\<close> under
  the typed handle) to the principals granted on it.
\<close>

datatype handle = H8 euint8 | H64 euint64 | HBool ebool

text \<open>
  The state: the engine (its input verifier, which gives the plaintext of each external
  ciphertext it authenticates for a caller and a proof; the number of values drawn so far;
  the grants), then the storage of the contract, then the event log.
\<close>

record state =
  verifier :: "address \<times> 256 word \<times> bytes \<Rightarrow> bool option"
  draws :: nat
  acl :: "(handle \<times> principal) set"
  balances :: "address \<Rightarrow> euint64"
  lastRoll :: "address \<Rightarrow> euint8"
  lastOutcome :: "address \<Rightarrow> ebool"
  lastReward :: "address \<Rightarrow> euint64"
  roundEligible :: "address \<Rightarrow> ebool"
  gameActive :: "address \<Rightarrow> bool"
  events :: "event list"

text \<open>
  \<^verbatim>\<open>FHE.randEuint8(upperBound)\<close>: the engine draws a value \<open>v\<close>, an input of the
  model, and counts the draw.
\<close>

definition FHE_randEuint8 :: "8 word \<Rightarrow> 8 word \<Rightarrow> state \<Rightarrow> euint8 \<times> state" where
  "FHE_randEuint8 upperBound v s =
     (randEuint8 (draws s) upperBound v, s\<lparr>draws := Suc (draws s)\<rparr>)"

text \<open>
  \<^verbatim>\<open>FHE.fromExternal(guess, inputProof)\<close>: the input verifier either authenticates the
  external ciphertext and its proof for the caller, and the ciphertext is imported, or
  rejects them, and the call reverts.
\<close>

definition FHE_fromExternal :: "address \<Rightarrow> 256 word \<Rightarrow> bytes \<Rightarrow> state \<Rightarrow> error + ebool" where
  "FHE_fromExternal sender guess inputProof s =
     (case verifier s (sender, guess, inputProof) of
        None \<Rightarrow> Inl InvalidProof
      | Some b \<Rightarrow> Inr (fromExternal guess b))"

definition FHE_allow :: "handle \<Rightarrow> address \<Rightarrow> state \<Rightarrow> state" where
  "FHE_allow h a s = s\<lparr>acl := insert (h, Account a) (acl s)\<rparr>"

definition FHE_allowThis :: "handle \<Rightarrow> state \<Rightarrow> state" where
  "FHE_allowThis h s = s\<lparr>acl := insert (h, This) (acl s)\<rparr>"

definition isGranted :: "state \<Rightarrow> handle \<Rightarrow> principal \<Rightarrow> bool" where
  "isGranted s h p = ((h, p) \<in> acl s)"

definition emit :: "event \<Rightarrow> state \<Rightarrow> state" where
  "emit e s = s\<lparr>events := events s @ [e]\<rparr>"

section \<open>The contract\<close>

text \<open>
  \<^verbatim>\<open>buyPoints\<close>, with \<open>sender\<close> for \<^verbatim>\<open>msg.sender\<close> and \<open>msg_value\<close> (a
  \<^verbatim>\<open>uint256\<close>, in wei) for \<^verbatim>\<open>msg.value\<close>. The product
  \<^verbatim>\<open>msg.value * POINTS_PER_ETH\<close> is checked \<^verbatim>\<open>uint256\<close> arithmetic: the call
  panics when it does not fit.
\<close>

definition buyPoints :: "address \<Rightarrow> 256 word \<Rightarrow> state \<Rightarrow> error + state" where
  "buyPoints sender msg_value s =
     (if \<not> 0 < unat msg_value then Inl NoEthSent
      else if 2 ^ 256 \<le> unat msg_value * POINTS_PER_ETH then Inl ArithmeticOverflow
      else
        let pointsValue = (unat msg_value * POINTS_PER_ETH) div ether
        in if \<not> 0 < pointsValue then Inl AmountTooSmall
           else if \<not> pointsValue \<le> 2 ^ 64 - 1 then Inl PointsOverflow
           else
             let encryptedPoints = asEuint64 (word_of_nat pointsValue);
                 s = s\<lparr>balances := (balances s)(sender := add64 (balances s sender) encryptedPoints)\<rparr>;
                 s = FHE_allowThis (H64 (balances s sender)) s;
                 s = FHE_allow (H64 (balances s sender)) sender s
             in Inr (emit (PointsPurchased sender (unat msg_value) pointsValue) s))"

text \<open>
  \<^verbatim>\<open>startGame\<close>; \<open>v\<close> is the value the engine draws for \<^verbatim>\<open>FHE.randEuint8(6)\<close>.
\<close>

definition startGame :: "address \<Rightarrow> 8 word \<Rightarrow> state \<Rightarrow> error + state" where
  "startGame sender v s =
     (if gameActive s sender then Inl GameAlreadyActive
      else
        let s = s\<lparr>gameActive := (gameActive s)(sender := True)\<rparr>;
            cost = asEuint64 PLAY_COST;
            hasEnough = ge64 (balances s sender) cost;
            s = s\<lparr>balances := (balances s)
                  (sender := select64 hasEnough (sub64 (balances s sender) cost) (balances s sender))\<rparr>;
            s = s\<lparr>roundEligible := (roundEligible s)(sender := hasEnough)\<rparr>;
            (drawn, s) = FHE_randEuint8 6 v s;
            diceRoll = add8 drawn (asEuint8 1);
            s = s\<lparr>lastRoll := (lastRoll s)(sender := diceRoll)\<rparr>;
            s = FHE_allowThis (H64 (balances s sender)) s;
            s = FHE_allow (H64 (balances s sender)) sender s;
            s = FHE_allowThis (HBool (roundEligible s sender)) s;
            s = FHE_allowThis (H8 (lastRoll s sender)) s;
            s = FHE_allow (H8 (lastRoll s sender)) sender s
        in Inr (emit (GameStarted sender) s))"

text \<open>
  \<^verbatim>\<open>submitGuess\<close>. The flag is cleared before the import, as in the source; when the
  import is rejected the call reverts.
\<close>

definition submitGuess :: "address \<Rightarrow> 256 word \<Rightarrow> bytes \<Rightarrow> state \<Rightarrow> error + state" where
  "submitGuess sender guess inputProof s =
     (if \<not> gameActive s sender then Inl NoActiveGame
      else
        let s = s\<lparr>gameActive := (gameActive s)(sender := False)\<rparr>
        in case FHE_fromExternal sender guess inputProof s of
             Inl e \<Rightarrow> Inl e
           | Inr encryptedGuess \<Rightarrow>
               let isBig = ge8 (lastRoll s sender) (asEuint8 4);
                   isWin = eqBool isBig encryptedGuess;
                   rewardIfWin = select64 isWin (asEuint64 WIN_REWARD) (asEuint64 0);
                   reward = select64 (roundEligible s sender) rewardIfWin (asEuint64 0);
                   s = s\<lparr>balances := (balances s)(sender := add64 (balances s sender) reward)\<rparr>;
                   s = s\<lparr>lastOutcome := (lastOutcome s)(sender := isWin)\<rparr>;
                   s = s\<lparr>lastReward := (lastReward s)(sender := reward)\<rparr>;
                   s = FHE_allowThis (H64 (balances s sender)) s;
                   s = FHE_allow (H64 (balances s sender)) sender s;
                   s = FHE_allowThis (HBool (lastOutcome s sender)) s;
                   s = FHE_allow (HBool (lastOutcome s sender)) sender s;
                   s = FHE_allowThis (H64 (lastReward s sender)) s;
                   s = FHE_allow (H64 (lastReward s sender)) sender s
               in Inr (emit (GuessSubmitted sender) s))"

text \<open>
  A transaction either commits the state its call returns or reverts to the state before
  the call: no write of a failed call survives. \<open>failure\<close> is the error of the call, if
  any, and \<open>after\<close> the state the transaction leaves.
\<close>

definition exec :: "(state \<Rightarrow> error + state) \<Rightarrow> state \<Rightarrow> error option \<times> state" where
  "exec f s = (case f s of Inl e \<Rightarrow> (Some e, s) | Inr s' \<Rightarrow> (None, s'))"

definition failure :: "(state \<Rightarrow> error + state) \<Rightarrow> state \<Rightarrow> error option" where
  "failure f s = fst (exec f s)"

definition after :: "(state \<Rightarrow> error + state) \<Rightarrow> state \<Rightarrow> state" where
  "after f s = snd (exec f s)"

text \<open>The state of a freshly deployed contract; \<open>v\<close> is the engine's input verifier.\<close>

definition init :: "(address \<times> 256 word \<times> bytes \<Rightarrow> bool option) \<Rightarrow> state" where
  "init v =
     \<lparr>verifier = v, draws = 0, acl = {},
      balances = (\<lambda>_. uninitialized64), lastRoll = (\<lambda>_. uninitialized8),
      lastOutcome = (\<lambda>_. uninitializedBool), lastReward = (\<lambda>_. uninitialized64),
      roundEligible = (\<lambda>_. uninitializedBool), gameActive = (\<lambda>_. False),
      events = []\<rparr>"

text \<open>
  The states the contract can be in: the state at deployment, and every state a
  transaction of some account leaves, whether the call succeeded or reverted.
\<close>

inductive reachable :: "state \<Rightarrow> bool" where
  deployed: "reachable (init v)"
| bought: "reachable s \<Longrightarrow> reachable (after (buyPoints a e) s)"
| started: "reachable s \<Longrightarrow> reachable (after (startGame a v) s)"
| guessed: "reachable s \<Longrightarrow> reachable (after (submitGuess a g pr) s)"

section \<open>The client: refreshing the decrypted view of an account\<close>

text \<open>
  \<^verbatim>\<open>GameApp\<close> reads the four handles of the connected account as \<^verbatim>\<open>bytes32\<close> hex
  strings and compares them with \<^verbatim>\<open>ZERO_HASH\<close>, the handle of a slot never written.
\<close>

definition ZERO_HASH :: string where
  "ZERO_HASH = ''0x'' @ replicate 64 (CHR ''0'')"

text \<open>The five values \<^verbatim>\<open>refreshPlayerData\<close> reads from the contract.\<close>

record reads =
  encryptedBalance :: string
  encryptedRoll :: string
  encryptedOutcome :: string
  encryptedReward :: string
  active :: bool

text \<open>
  What the component depends on: the configured contract address, the wallet and the
  relayer instance (present or not), whether the signer promise resolves to a signer, the
  result of the five contract reads (\<open>None\<close> when a read throws), the relayer's
  \<^verbatim>\<open>userDecrypt\<close> on a batch of handle/contract pairs (\<open>None\<close> when it throws) and
  JavaScript's \<^verbatim>\<open>Number\<close> on strings. The key pair, the signed EIP-712 delegation and
  its validity window, which \<^verbatim>\<open>decryptHandles\<close> builds and passes to
  \<^verbatim>\<open>userDecrypt\<close> with the batch, are left out.
\<close>

record 'n env =
  CONTRACT_ADDRESS :: string
  isConnected :: bool
  address :: bool
  publicClient :: bool
  zamaInstance :: bool
  zamaLoading :: bool
  signerPromise :: bool
  resolvedSigner :: bool
  readContract :: "reads option"
  userDecrypt :: "(string \<times> string) list \<Rightarrow> (string \<Rightarrow> string option) option"
  Number :: "string \<Rightarrow> 'n"

text \<open>The React state of the component that \<^verbatim>\<open>refreshPlayerData\<close> sets.\<close>

record 'n gameApp =
  balance :: "string option"
  lastRoll_ui :: "'n option"
  lastOutcome_ui :: "bool option"
  lastReward_ui :: "string option"
  gameActive_ui :: bool
  statusMessage :: "string option"
  isBusy_refresh :: bool

definition isConfigured :: "'n env \<Rightarrow> bool" where
  "isConfigured e = (CONTRACT_ADDRESS e \<noteq> ZERO_HASH)"

definition canUseWallet :: "'n env \<Rightarrow> bool" where
  "canUseWallet e = (isConfigured e \<and> isConnected e \<and> address e \<and> publicClient e)"

definition canDecrypt :: "'n env \<Rightarrow> bool" where
  "canDecrypt e = (canUseWallet e \<and> zamaInstance e \<and> signerPromise e \<and> \<not> zamaLoading e)"

text \<open>
  \<^verbatim>\<open>decryptHandles\<close>: the response of the decryption service (\<open>None\<close> when the call
  throws), and the batches sent to the service.
\<close>

definition decryptHandles ::
  "'n env \<Rightarrow> string list \<Rightarrow> (string \<Rightarrow> string option) option \<times> (string \<times> string) list list" where
  "decryptHandles e handles =
     (if \<not> zamaInstance e \<or> \<not> address e then (Some (\<lambda>_. None), [])
      else if \<not> resolvedSigner e then (None, [])
      else
        let handleContractPairs = map (\<lambda>handle. (handle, CONTRACT_ADDRESS e)) handles
        in (userDecrypt e handleContractPairs, [handleContractPairs]))"

text \<open>The \<^verbatim>\<open>catch\<close> block of \<^verbatim>\<open>refreshPlayerData\<close>.\<close>

definition refreshFailed :: "'n gameApp \<Rightarrow> 'n gameApp" where
  "refreshFailed st = st\<lparr>statusMessage := Some ''Unable to refresh encrypted data.''\<rparr>"

text \<open>
  The four setters after a decryption: \<^verbatim>\<open>??\<close> replaces a missing entry by
  \<^verbatim>\<open>'0'\<close>; a missing or empty roll is falsy and gives \<^verbatim>\<open>null\<close>; a missing outcome
  leaves the state as it was.
\<close>

definition decode :: "'n env \<Rightarrow> reads \<Rightarrow> (string \<Rightarrow> string option) \<Rightarrow> 'n gameApp \<Rightarrow> 'n gameApp" where
  "decode e r decryptedValues st =
     (let st =
            (if encryptedBalance r \<noteq> ZERO_HASH
             then st\<lparr>balance :=
                    Some (case decryptedValues (encryptedBalance r) of None \<Rightarrow> ''0'' | Some v \<Rightarrow> v)\<rparr>
             else st\<lparr>balance := Some ''0''\<rparr>);
          st =
            (if encryptedRoll r \<noteq> ZERO_HASH
             then st\<lparr>lastRoll_ui :=
                    (case decryptedValues (encryptedRoll r) of
                       None \<Rightarrow> None
                     | Some rawRoll \<Rightarrow> if rawRoll = [] then None else Some (Number e rawRoll))\<rparr>
             else st\<lparr>lastRoll_ui := None\<rparr>);
          st =
            (if encryptedOutcome r \<noteq> ZERO_HASH
             then (case decryptedValues (encryptedOutcome r) of
                     None \<Rightarrow> st
                   | Some rawOutcome \<Rightarrow> st\<lparr>lastOutcome_ui := Some (rawOutcome = ''1'')\<rparr>)
             else st\<lparr>lastOutcome_ui := None\<rparr>)
      in if encryptedReward r \<noteq> ZERO_HASH
         then st\<lparr>lastReward_ui :=
                Some (case decryptedValues (encryptedReward r) of None \<Rightarrow> ''0'' | Some v \<Rightarrow> v)\<rparr>
         else st\<lparr>lastReward_ui := Some ''0''\<rparr>)"

text \<open>
  \<^verbatim>\<open>refreshPlayerData\<close>: the new state of the component and the batches sent to the
  decryption service.
\<close>

definition refreshPlayerData :: "'n env \<Rightarrow> 'n gameApp \<Rightarrow> 'n gameApp \<times> (string \<times> string) list list" where
  "refreshPlayerData e st =
     (if \<not> canUseWallet e \<or> \<not> publicClient e \<or> \<not> address e then (st, [])
      else
        let st = st\<lparr>isBusy_refresh := True\<rparr>;
            (st, sent) =
              (case readContract e of
                 None \<Rightarrow> (refreshFailed st, [])
               | Some r \<Rightarrow>
                   let st = st\<lparr>gameActive_ui := active r\<rparr>
                   in if \<not> canDecrypt e
                      then (st\<lparr>balance := None, lastRoll_ui := None,
                               lastOutcome_ui := None, lastReward_ui := None\<rparr>, [])
                      else
                        let handlesToDecrypt =
                              filter (\<lambda>handle. handle \<noteq> ZERO_HASH)
                                [encryptedBalance r, encryptedRoll r, encryptedOutcome r,
                                 encryptedReward r]
                        in if length handlesToDecrypt = 0
                           then (st\<lparr>balance := Some ''0'', lastRoll_ui := None,
                                    lastOutcome_ui := None, lastReward_ui := Some ''0''\<rparr>, [])
                           else
                             (case decryptHandles e handlesToDecrypt of
                                (None, sent) \<Rightarrow> (refreshFailed st, sent)
                              | (Some decryptedValues, sent) \<Rightarrow>
                                  (decode e r decryptedValues st, sent)))
        in (st\<lparr>isBusy_refresh := False\<rparr>, sent))"

text \<open>The handles of the four readable fields that are not the handle never written.\<close>

definition nonSentinel :: "reads \<Rightarrow> string list" where
  "nonSentinel r =
     filter (\<lambda>handle. handle \<noteq> ZERO_HASH)
       [encryptedBalance r, encryptedRoll r, encryptedOutcome r, encryptedReward r]"

text \<open>A handle granted to the contract itself and to the account.\<close>

definition grantedBoth :: "state \<Rightarrow> address \<Rightarrow> handle \<Rightarrow> bool" where
  "grantedBoth s a h = (isGranted s h This \<and> isGranted s h (Account a))"

section \<open>Example states\<close>

text \<open>
  One account, \<open>alice\<close>, and an input verifier that authenticates one external
  ciphertext for her, of plaintext \<open>True\<close> (the guess "big"). \<open>funded\<close>: she bought
  points with 1 ETH. \<open>pending\<close>: she then started a round, and the engine drew 3 (the roll
  is 4). \<open>unfunded\<close>: she started a round without ever buying points, and the engine drew
  5. \<open>rich\<close>: she bought \<open>2 ^ 64 - 1\<close> points at once. \<open>brimming\<close>: from \<open>rich\<close> she
  started a round, which cost her 100 points (the engine drew 3, the roll is 4), and bought
  100 points again.
\<close>

definition alice :: address where
  "alice = 1"

definition oneGuess :: "address \<times> 256 word \<times> bytes \<Rightarrow> bool option" where
  "oneGuess = (\<lambda>_. None)((alice, 7, [1]) := Some True)"

definition funded :: state where
  "funded = after (buyPoints alice 1000000000000000000) (init oneGuess)"

definition pending :: state where
  "pending = after (startGame alice 3) funded"

definition unfunded :: state where
  "unfunded = after (startGame alice 5) (init oneGuess)"

definition rich :: state where
  "rich = after (buyPoints alice 18446744073709551615000000000000) (init oneGuess)"

definition brimming :: state where
  "brimming = after (buyPoints alice 100000000000000) (after (startGame alice 3) rich)"

text \<open>
  A client whose \<^verbatim>\<open>Number\<close> reads a string of digits, with nothing displayed yet:
  \<open>newcomer\<close> reads the handles of an account that never called the contract;
  \<open>player\<close> reads those of an account in the middle of its first round, and its
  decryption service answers with a balance of 999900 and a roll of 4.
\<close>

definition decimal :: "string \<Rightarrow> nat" where
  "decimal s = foldl (\<lambda>n c. 10 * n + (of_char c - 48)) 0 s"

definition blank :: "nat gameApp" where
  "blank =
     \<lparr>balance = None, lastRoll_ui = None, lastOutcome_ui = None, lastReward_ui = None,
      gameActive_ui = False, statusMessage = None, isBusy_refresh = False\<rparr>"

definition noActivity :: reads where
  "noActivity =
     \<lparr>encryptedBalance = ZERO_HASH, encryptedRoll = ZERO_HASH,
      encryptedOutcome = ZERO_HASH, encryptedReward = ZERO_HASH, active = False\<rparr>"

definition midRound :: reads where
  "midRound =
     \<lparr>encryptedBalance = ''0xb1'', encryptedRoll = ''0xd4'',
      encryptedOutcome = ZERO_HASH, encryptedReward = ZERO_HASH, active = True\<rparr>"

definition relayer :: "string \<Rightarrow> string option" where
  "relayer = map_of [(''0xb1'', ''999900''), (''0xd4'', ''4'')]"

definition newcomer :: "nat env" where
  "newcomer =
     \<lparr>CONTRACT_ADDRESS = ''0xC0'', isConnected = True, address = True, publicClient = True,
      zamaInstance = True, zamaLoading = False, signerPromise = True, resolvedSigner = True,
      readContract = Some noActivity, userDecrypt = (\<lambda>_. None), Number = decimal\<rparr>"

definition player :: "nat env" where
  "player = newcomer\<lparr>readContract := Some midRound, userDecrypt := (\<lambda>_. Some relayer)\<rparr>"

section \<open>Evaluating the examples\<close>

lemmas tx_defs = exec_def failure_def after_def

lemmas engine_defs = FHE_randEuint8_def FHE_fromExternal_def FHE_allow_def FHE_allowThis_def
  emit_def isGranted_def

lemmas const_defs = POINTS_PER_ETH_def PLAY_COST_def WIN_REWARD_def ether_def

lemma init_eval:
  "\<not> gameActive (init v) a"
  "dec64 (balances (init v) a) = 0"
  by (simp_all add: init_def)

lemma funded_eval:
  "failure (buyPoints alice 1000000000000000000) (init oneGuess) = None"
  "dec64 (balances funded alice) = 1000000"
  "\<not> gameActive funded alice"
  by (simp_all add: funded_def tx_defs buyPoints_def engine_defs Let_def init_def const_defs)

lemma pending_eval:
  "failure (startGame alice 3) funded = None"
  "gameActive pending alice"
  "dec64 (balances pending alice) = 999900"
  "decBool (roundEligible pending alice)"
  "dec8 (lastRoll pending alice) = 4"
  "verifier pending (alice, 7, [1]) = Some True"
  "verifier pending (alice, 0, []) = None"
  by (simp_all add: pending_def funded_def tx_defs buyPoints_def startGame_def engine_defs
      Let_def init_def const_defs oneGuess_def)

lemma unfunded_eval:
  "gameActive unfunded alice"
  "dec64 (balances unfunded alice) = 0"
  "\<not> decBool (roundEligible unfunded alice)"
  "dec8 (lastRoll unfunded alice) = 6"
  "verifier unfunded (alice, 7, [1]) = Some True"
  by (simp_all add: unfunded_def tx_defs startGame_def engine_defs Let_def init_def const_defs
      oneGuess_def)

lemma funded_last_eval:
  "\<not> decBool (lastOutcome funded alice)"
  "dec64 (lastReward funded alice) = 0"
  by (simp_all add: funded_def tx_defs buyPoints_def engine_defs Let_def init_def const_defs)

lemma init_buy_eval: "failure (buyPoints alice 1) (init oneGuess) = Some AmountTooSmall"
  by (simp add: tx_defs buyPoints_def const_defs)

lemma rich_eval: "dec64 (balances rich alice) = 18446744073709551615"
  by (simp add: rich_def tx_defs buyPoints_def engine_defs Let_def init_def const_defs)

lemma brimming_eval:
  "gameActive brimming alice"
  "verifier brimming (alice, 7, [1]) = Some True"
  "decBool (roundEligible brimming alice)"
  "dec8 (lastRoll brimming alice) = 4"
  "unat (dec64 (balances brimming alice)) = 18446744073709551615"
  by (simp_all add: brimming_def rich_def tx_defs buyPoints_def startGame_def engine_defs
      Let_def init_def const_defs oneGuess_def)


lemma example_handles:
  "''0xb1'' \<noteq> ZERO_HASH"
  "''0xd4'' \<noteq> ZERO_HASH"
  "''0xC0'' \<noteq> ZERO_HASH"
  by (simp_all add: ZERO_HASH_def eval_nat_numeral)

lemma newcomer_eval:
  "canDecrypt newcomer"
  "readContract newcomer = Some noActivity"
  "encryptedBalance noActivity = ZERO_HASH"
  "encryptedRoll noActivity = ZERO_HASH"
  "encryptedOutcome noActivity = ZERO_HASH"
  "encryptedReward noActivity = ZERO_HASH"
  by (simp_all add: newcomer_def noActivity_def canDecrypt_def canUseWallet_def isConfigured_def
      example_handles)

lemma player_eval:
  "canDecrypt player"
  "readContract player = Some midRound"
  "resolvedSigner player"
  "nonSentinel midRound = [''0xb1'', ''0xd4'']"
  "userDecrypt player b = Some relayer"
  "CONTRACT_ADDRESS player = ''0xC0''"
  "encryptedBalance midRound = ''0xb1''"
  "encryptedRoll midRound = ''0xd4''"
  "encryptedOutcome midRound = ZERO_HASH"
  "encryptedReward midRound = ZERO_HASH"
  "Number player ''4'' = 4"
  "relayer ''0xb1'' = Some ''999900''"
  "relayer ''0xd4'' = Some ''4''"
  by (simp_all add: player_def newcomer_def midRound_def canDecrypt_def canUseWallet_def
      isConfigured_def example_handles nonSentinel_def relayer_def decimal_def)

section \<open>Resolving a round\<close>

text \<open>
  C1, as stated, fails in its credit: the balance is a 64-bit ciphertext and
  \<^verbatim>\<open>submitGuess\<close> adds the reward to it with no check on the sum. In \<open>brimming\<close> the
  round of \<open>alice\<close> is eligible, her balance decrypts to \<open>2 ^ 64 - 1\<close> and her guess
  equals the bit: the reward stored is \<open>WIN_REWARD\<close>, and the balance stored decrypts to
  999.
\<close>

theorem submitGuess_credit_counterexample:
  "gameActive brimming alice \<and> verifier brimming (alice, 7, [1]) = Some True \<and>
   decBool (roundEligible brimming alice) \<and> 4 \<le> dec8 (lastRoll brimming alice) \<and>
   failure (submitGuess alice 7 [1]) brimming = None \<and>
   decBool (lastOutcome (after (submitGuess alice 7 [1]) brimming) alice) \<and>
   dec64 (lastReward (after (submitGuess alice 7 [1]) brimming) alice) = WIN_REWARD \<and>
   unat (dec64 (balances brimming alice)) = 18446744073709551615 \<and>
   unat (dec64 (balances (after (submitGuess alice 7 [1]) brimming) alice)) = 999 \<and>
   unat (dec64 (balances (after (submitGuess alice 7 [1]) brimming) alice))
     \<noteq> unat (dec64 (balances brimming alice)) + unat WIN_REWARD"
  by (simp add: brimming_def rich_def tx_defs buyPoints_def startGame_def submitGuess_def
      engine_defs Let_def init_def const_defs oneGuess_def)

text \<open>
  C1, amended. In a pending round, \<^verbatim>\<open>submitGuess\<close> with an authenticated guess
  succeeds. With \<open>big\<close> the bit \<open>lastRoll \<ge> 4\<close>: the outcome stored decrypts to
  \<open>guess = big\<close>; when the round was eligible and the guess equals the bit, the reward
  stored decrypts to \<open>WIN_REWARD\<close> and the balance stored decrypts to the old balance plus
  \<open>WIN_REWARD\<close>, modulo \<open>2 ^ 64\<close>; in every other case the reward stored decrypts to 0
  and the balance stored decrypts to the old balance.
\<close>

theorem submitGuess_win_determinism:
  assumes "gameActive s a" and "verifier s (a, g, pr) = Some guess"
  shows "failure (submitGuess a g pr) s = None \<and>
    (let s' = after (submitGuess a g pr) s;
         big = (4 \<le> dec8 (lastRoll s a));
         paid = (decBool (roundEligible s a) \<and> guess = big)
     in decBool (lastOutcome s' a) = (guess = big) \<and>
        dec64 (lastReward s' a) = (if paid then WIN_REWARD else 0) \<and>
        unat (dec64 (balances s' a)) =
          (unat (dec64 (balances s a)) + (if paid then unat WIN_REWARD else 0)) mod 2 ^ 64)"
proof -
  define paid where "paid = (decBool (roundEligible s a) \<and> guess = (4 \<le> dec8 (lastRoll s a)))"
  have ok: "failure (submitGuess a g pr) s = None"
    and outcome: "decBool (lastOutcome (after (submitGuess a g pr) s) a)
        = (guess = (4 \<le> dec8 (lastRoll s a)))"
    and reward: "dec64 (lastReward (after (submitGuess a g pr) s) a)
        = (if paid then WIN_REWARD else 0)"
    and sum: "dec64 (balances (after (submitGuess a g pr) s) a)
        = dec64 (balances s a) + (if paid then WIN_REWARD else 0)"
    using assms unfolding paid_def
    by (auto simp add: tx_defs submitGuess_def engine_defs Let_def)
  have "unat (dec64 (balances (after (submitGuess a g pr) s) a))
      = (unat (dec64 (balances s a)) + (if paid then unat WIN_REWARD else 0)) mod 2 ^ 64"
    unfolding sum by (simp add: unat_word_ariths)
  with ok outcome reward show ?thesis
    unfolding Let_def paid_def by simp
qed

theorem submitGuess_win_determinism_witness:
  "gameActive pending alice \<and> verifier pending (alice, 7, [1]) = Some True \<and>
   failure (submitGuess alice 7 [1]) pending = None \<and>
   decBool (lastOutcome (after (submitGuess alice 7 [1]) pending) alice) \<and>
   dec64 (lastReward (after (submitGuess alice 7 [1]) pending) alice) = 1000 \<and>
   unat (dec64 (balances (after (submitGuess alice 7 [1]) pending) alice)) = 1000900"
  using submitGuess_win_determinism [of pending alice 7 "[1]" True]
  by (simp add: pending_eval Let_def const_defs)

section \<open>Starting a round without the points to pay for it\<close>

text \<open>
  C2. When the balance of an idle account decrypts to less than \<open>PLAY_COST\<close>,
  \<^verbatim>\<open>startGame\<close> succeeds all the same; the balance it stores decrypts to the balance
  before the call; the eligibility flag it stores decrypts to false; and in every later
  state \<open>s2\<close> where that round is still the pending one (the account is active and its
  eligibility handle is the one this call stored), \<^verbatim>\<open>submitGuess\<close> with any
  authenticated guess, right or wrong, stores a reward that decrypts to 0 and credits
  nothing.
\<close>

theorem startGame_insufficient_funds:
  assumes "\<not> gameActive s a" and "dec64 (balances s a) < PLAY_COST"
    and "s1 = after (startGame a v) s"
    and "gameActive s2 a" and "roundEligible s2 a = roundEligible s1 a"
    and "verifier s2 (a, g, pr) = Some guess"
  shows "failure (startGame a v) s = None \<and>
    dec64 (balances s1 a) = dec64 (balances s a) \<and>
    \<not> decBool (roundEligible s1 a) \<and>
    failure (submitGuess a g pr) s2 = None \<and>
    dec64 (lastReward (after (submitGuess a g pr) s2) a) = 0 \<and>
    dec64 (balances (after (submitGuess a g pr) s2) a) = dec64 (balances s2 a)"
  using assms
  by (auto simp add: tx_defs startGame_def submitGuess_def engine_defs Let_def not_le)

theorem startGame_insufficient_funds_witness:
  "\<not> gameActive (init oneGuess) alice \<and>
   dec64 (balances (init oneGuess) alice) < PLAY_COST \<and>
   gameActive unfunded alice \<and> verifier unfunded (alice, 7, [1]) = Some True \<and>
   failure (startGame alice 5) (init oneGuess) = None \<and>
   dec64 (balances unfunded alice) = 0 \<and>
   \<not> decBool (roundEligible unfunded alice) \<and>
   dec8 (lastRoll unfunded alice) = 6 \<and>
   failure (submitGuess alice 7 [1]) unfunded = None \<and>
   dec64 (lastReward (after (submitGuess alice 7 [1]) unfunded) alice) = 0 \<and>
   dec64 (balances (after (submitGuess alice 7 [1]) unfunded) alice) = 0"
  using startGame_insufficient_funds [of "init oneGuess" alice unfunded 5 unfunded 7 "[1]" True]
  by (simp add: unfunded_eval init_eval unfunded_def [symmetric] PLAY_COST_def)

section \<open>Buying points\<close>

text \<open>
  C3, as stated, fails: the balance is a 64-bit ciphertext, so the balance after a purchase
  cannot always be the balance before it plus the points bought. With a balance of
  \<open>2 ^ 64 - 1\<close>, buying one more point succeeds and leaves a balance that decrypts to 0.
\<close>

theorem buyPoints_exact_sum_counterexample:
  "0 < unat (1000000000000 :: 256 word) \<and>
   unat (1000000000000 :: 256 word) * POINTS_PER_ETH div ether = 1 \<and>
   failure (buyPoints alice 1000000000000) rich = None \<and>
   unat (dec64 (balances rich alice)) = 18446744073709551615 \<and>
   unat (dec64 (balances (after (buyPoints alice 1000000000000) rich) alice)) = 0 \<and>
   unat (dec64 (balances (after (buyPoints alice 1000000000000) rich) alice))
     \<noteq> unat (dec64 (balances rich alice)) + 1"
  by (simp add: rich_eval tx_defs buyPoints_def engine_defs Let_def const_defs)

text \<open>
  Nor is every amount that buys too many points rejected with "Points overflow": when the
  product \<^verbatim>\<open>msg.value * POINTS_PER_ETH\<close> does not fit in 256 bits the call panics.
\<close>

lemma buyPoints_product_overflow:
  "failure
     (buyPoints a 115792089237316195423570985008687907853269984665640564039457584007913129639935)
     s = Some ArithmeticOverflow"
  by (simp add: tx_defs buyPoints_def const_defs)

lemma unat_add_of_nat64:
  "p < 2 ^ 64 \<Longrightarrow> unat ((x :: 64 word) + word_of_nat p) = (unat x + p) mod 2 ^ 64"
  by (simp add: unat_word_ariths unat_of_nat)

text \<open>
  C3, amended. For every amount \<open>e > 0\<close> of wei, with
  \<open>points = e * POINTS_PER_ETH div 10 ^ 18\<close>: \<^verbatim>\<open>buyPoints\<close> panics when the product
  \<open>e * POINTS_PER_ETH\<close> does not fit in 256 bits; otherwise it fails with "Amount too
  small" when \<open>points = 0\<close> and with "Points overflow" when \<open>points\<close> exceeds the 64-bit
  unsigned domain; otherwise it succeeds, and the balance it stores decrypts to the
  balance before the call plus \<open>points\<close>, modulo \<open>2 ^ 64\<close>. A failed call leaves the
  state as it was.
\<close>

theorem buyPoints_conservation:
  assumes "0 < unat e"
  shows "let points = unat e * POINTS_PER_ETH div ether; s' = after (buyPoints a e) s
    in failure (buyPoints a e) s =
         (if 2 ^ 256 \<le> unat e * POINTS_PER_ETH then Some ArithmeticOverflow
          else if points = 0 then Some AmountTooSmall
          else if 2 ^ 64 \<le> points then Some PointsOverflow
          else None) \<and>
       (if failure (buyPoints a e) s = None
        then unat (dec64 (balances s' a)) = (unat (dec64 (balances s a)) + points) mod 2 ^ 64
        else s' = s)"
proof -
  define points where "points = unat e * POINTS_PER_ETH div ether"
  have f: "failure (buyPoints a e) s =
         (if 2 ^ 256 \<le> unat e * POINTS_PER_ETH then Some ArithmeticOverflow
          else if points = 0 then Some AmountTooSmall
          else if 2 ^ 64 \<le> points then Some PointsOverflow
          else None)"
    using assms unfolding points_def
    by (auto simp add: tx_defs buyPoints_def engine_defs Let_def not_le not_less)
  have u: "failure (buyPoints a e) s \<noteq> None \<Longrightarrow> after (buyPoints a e) s = s"
    by (auto simp add: tx_defs split: sum.splits)
  have ok: "unat (dec64 (balances (after (buyPoints a e) s) a))
      = (unat (dec64 (balances s a)) + points) mod 2 ^ 64"
    if "failure (buyPoints a e) s = None"
  proof -
    from that f have p: "points < 2 ^ 64" "0 < points" "\<not> 2 ^ 256 \<le> unat e * POINTS_PER_ETH"
      by (auto split: if_splits)
    then have "dec64 (balances (after (buyPoints a e) s) a)
        = dec64 (balances s a) + word_of_nat points"
      using assms unfolding points_def
      by (simp add: tx_defs buyPoints_def engine_defs Let_def)
    with p(1) show ?thesis by (simp add: unat_add_of_nat64)
  qed
  from f u ok show ?thesis
    unfolding Let_def points_def [symmetric] by auto
qed

theorem buyPoints_conservation_witness:
  "0 < unat (1000000000000000000 :: 256 word) \<and>
   failure (buyPoints alice 1000000000000000000) (init oneGuess) = None \<and>
   unat (dec64 (balances funded alice)) = 1000000"
  using buyPoints_conservation [of 1000000000000000000 alice "init oneGuess"]
  by (simp add: funded_eval)

section \<open>Grants\<close>

text \<open>
  C4, as stated, fails for \<open>roundEligible\<close>: \<^verbatim>\<open>startGame\<close> grants the handle it stores
  there to the contract only (\<^verbatim>\<open>FHE.allowThis\<close>), never to the account. After the
  round \<open>alice\<close> starts in \<open>funded\<close>, her eligibility handle is granted to the contract
  and not to her.
\<close>

theorem startGame_roundEligible_grant_counterexample:
  "failure (startGame alice 3) funded = None \<and>
   isGranted pending (HBool (roundEligible pending alice)) This \<and>
   \<not> isGranted pending (HBool (roundEligible pending alice)) (Account alice)"
  by (simp add: pending_def funded_def tx_defs buyPoints_def startGame_def engine_defs Let_def
      init_def const_defs)

text \<open>
  No transition grants an account a handle produced by a comparison of balances, which is
  what \<^verbatim>\<open>startGame\<close> stores into \<open>roundEligible\<close>: the handles granted to an account
  are balances, rolls, rewards and outcomes.
\<close>

lemma no_account_grant_on_flag:
  "reachable s \<Longrightarrow> (HBool (ge64 x y), Account b) \<notin> acl s"
proof (induction rule: reachable.induct)
  case (deployed v)
  show ?case by (simp add: init_def)
next
  case (bought s a e)
  then show ?case
    by (auto simp add: tx_defs buyPoints_def engine_defs Let_def split: if_splits)
next
  case (started s a v)
  then show ?case
    by (auto simp add: tx_defs startGame_def engine_defs Let_def split: if_splits)
next
  case (guessed s a g pr)
  then show ?case
    by (auto simp add: tx_defs submitGuess_def engine_defs Let_def
        split: if_splits option.splits)
qed

lemma startGame_flag:
  "failure (startGame a v) s = None \<Longrightarrow>
   roundEligible (after (startGame a v) s) a = ge64 (balances s a) (asEuint64 PLAY_COST)"
  by (auto simp add: tx_defs startGame_def engine_defs Let_def split: if_splits)

lemma funded_reachable: "reachable funded"
  unfolding funded_def by (intro reachable.intros)

text \<open>
  C4, amended. When a transition returns successfully, every handle it stored into the
  acting account's \<open>balances\<close>, \<open>lastRoll\<close>, \<open>lastOutcome\<close> or \<open>lastReward\<close> is granted
  to the contract and to the account; the handle \<^verbatim>\<open>startGame\<close> stored into
  \<open>roundEligible\<close> is granted to the contract and, in every state the contract can reach
  from its deployment, to no account. (\<^verbatim>\<open>buyPoints\<close> stores the balance;
  \<^verbatim>\<open>startGame\<close> the balance, the eligibility flag and the roll; \<^verbatim>\<open>submitGuess\<close> the
  balance, the outcome and the reward.)
\<close>

theorem transitions_grant_stored_handles:
  "(failure (buyPoints a e) s = None \<longrightarrow>
      (let s' = after (buyPoints a e) s in grantedBoth s' a (H64 (balances s' a)))) \<and>
   (failure (startGame a v) s = None \<longrightarrow>
      (let s' = after (startGame a v) s
       in grantedBoth s' a (H64 (balances s' a)) \<and> grantedBoth s' a (H8 (lastRoll s' a)) \<and>
          isGranted s' (HBool (roundEligible s' a)) This)) \<and>
   (reachable s \<and> failure (startGame a v) s = None \<longrightarrow>
      (let s' = after (startGame a v) s
       in \<not> isGranted s' (HBool (roundEligible s' a)) (Account b))) \<and>
   (failure (submitGuess a g pr) s = None \<longrightarrow>
      (let s' = after (submitGuess a g pr) s
       in grantedBoth s' a (H64 (balances s' a)) \<and>
          grantedBoth s' a (HBool (lastOutcome s' a)) \<and>
          grantedBoth s' a (H64 (lastReward s' a))))"
proof -
  have flag: "\<not> isGranted (after (startGame a v) s)
      (HBool (roundEligible (after (startGame a v) s) a)) (Account b)"
    if "reachable s" and "failure (startGame a v) s = None"
  proof -
    from that(1) have "reachable (after (startGame a v) s)"
      by (rule reachable.started)
    then show ?thesis
      using that(2) by (simp add: isGranted_def startGame_flag no_account_grant_on_flag)
  qed
  have rest: "(failure (buyPoints a e) s = None \<longrightarrow>
      (let s' = after (buyPoints a e) s in grantedBoth s' a (H64 (balances s' a)))) \<and>
   (failure (startGame a v) s = None \<longrightarrow>
      (let s' = after (startGame a v) s
       in grantedBoth s' a (H64 (balances s' a)) \<and> grantedBoth s' a (H8 (lastRoll s' a)) \<and>
          isGranted s' (HBool (roundEligible s' a)) This)) \<and>
   (failure (submitGuess a g pr) s = None \<longrightarrow>
      (let s' = after (submitGuess a g pr) s
       in grantedBoth s' a (H64 (balances s' a)) \<and>
          grantedBoth s' a (HBool (lastOutcome s' a)) \<and>
          grantedBoth s' a (H64 (lastReward s' a))))"
    by (auto simp add: tx_defs buyPoints_def startGame_def submitGuess_def engine_defs Let_def
        grantedBoth_def split: if_splits option.splits)
  from flag rest show ?thesis
    unfolding Let_def by blast
qed

theorem transitions_grant_stored_handles_witness:
  "failure (buyPoints alice 1000000000000000000) (init oneGuess) = None \<and>
   grantedBoth funded alice (H64 (balances funded alice)) \<and>
   reachable funded \<and>
   failure (startGame alice 3) funded = None \<and>
   grantedBoth pending alice (H64 (balances pending alice)) \<and>
   grantedBoth pending alice (H8 (lastRoll pending alice)) \<and>
   isGranted pending (HBool (roundEligible pending alice)) This \<and>
   \<not> isGranted pending (HBool (roundEligible pending alice)) (Account alice) \<and>
   failure (submitGuess alice 7 [1]) pending = None \<and>
   grantedBoth (after (submitGuess alice 7 [1]) pending) alice
     (H64 (balances (after (submitGuess alice 7 [1]) pending) alice)) \<and>
   grantedBoth (after (submitGuess alice 7 [1]) pending) alice
     (HBool (lastOutcome (after (submitGuess alice 7 [1]) pending) alice)) \<and>
   grantedBoth (after (submitGuess alice 7 [1]) pending) alice
     (H64 (lastReward (after (submitGuess alice 7 [1]) pending) alice))"
proof -
  have ok: "failure (submitGuess alice 7 [1]) pending = None"
    by (simp add: pending_eval tx_defs submitGuess_def engine_defs Let_def)
  show ?thesis
    using transitions_grant_stored_handles
        [of alice 1000000000000000000 "init oneGuess" 3 alice 7 "[1]"]
      transitions_grant_stored_handles [of alice 1 funded 3 alice 7 "[1]"]
      transitions_grant_stored_handles [of alice 1 pending 3 alice 7 "[1]"]
    by (simp add: funded_eval pending_eval ok funded_def [symmetric] pending_def [symmetric]
        Let_def funded_reachable)
qed

section \<open>A guess whose proof is rejected\<close>

text \<open>
  C5, as stated, fails: a call that reverts commits nothing, the cleared flag included.
  After \<^verbatim>\<open>submitGuess\<close> fails on a rejected proof in \<open>pending\<close>, the round of
  \<open>alice\<close> is still active.
\<close>

theorem submitGuess_invalid_proof_counterexample:
  "gameActive pending alice \<and> verifier pending (alice, 0, []) = None \<and>
   failure (submitGuess alice 0 []) pending = Some InvalidProof \<and>
   gameActive (after (submitGuess alice 0 []) pending) alice"
  by (simp add: pending_eval tx_defs submitGuess_def engine_defs Let_def)

text \<open>
  C5, amended. When \<^verbatim>\<open>submitGuess\<close> is called in a pending round with an external
  ciphertext that the input verifier rejects, the call fails with \<open>InvalidProof\<close> and the
  transaction leaves the state as it was: nothing derived from the unverified value is
  committed, and the round is still active.
\<close>

theorem submitGuess_invalid_proof:
  assumes "gameActive s a" and "verifier s (a, g, pr) = None"
  shows "submitGuess a g pr s = Inl InvalidProof \<and>
    failure (submitGuess a g pr) s = Some InvalidProof \<and>
    after (submitGuess a g pr) s = s \<and>
    gameActive (after (submitGuess a g pr) s) a"
  using assms by (simp add: tx_defs submitGuess_def engine_defs Let_def)

theorem submitGuess_invalid_proof_witness:
  "gameActive pending alice \<and> verifier pending (alice, 0, []) = None \<and>
   submitGuess alice 0 [] pending = Inl InvalidProof \<and>
   failure (submitGuess alice 0 []) pending = Some InvalidProof \<and>
   after (submitGuess alice 0 []) pending = pending"
  using submitGuess_invalid_proof [of pending alice 0 "[]"]
  by (simp add: pending_eval)

section \<open>Calls in the wrong state\<close>

text \<open>
  C6. \<^verbatim>\<open>startGame\<close> in an active round fails with "Game already active" and leaves the
  state as it was, the flag and every handle of the account included; so a second
  \<^verbatim>\<open>startGame\<close> right after a first one fails. \<^verbatim>\<open>submitGuess\<close> with no active round
  fails with "No active game" and leaves the state as it was.
\<close>

theorem wrong_state_calls_fail:
  "(gameActive s a \<longrightarrow>
      startGame a v s = Inl GameAlreadyActive \<and>
      failure (startGame a v) s = Some GameAlreadyActive \<and>
      after (startGame a v) s = s) \<and>
   (\<not> gameActive s a \<longrightarrow>
      failure (startGame a v') (after (startGame a v) s) = Some GameAlreadyActive) \<and>
   (\<not> gameActive s a \<longrightarrow>
      submitGuess a g pr s = Inl NoActiveGame \<and>
      failure (submitGuess a g pr) s = Some NoActiveGame \<and>
      after (submitGuess a g pr) s = s)"
  by (simp add: tx_defs startGame_def submitGuess_def engine_defs Let_def)

theorem wrong_state_calls_fail_witness:
  "gameActive pending alice \<and>
   failure (startGame alice 2) pending = Some GameAlreadyActive \<and>
   after (startGame alice 2) pending = pending \<and>
   \<not> gameActive funded alice \<and>
   failure (startGame alice 2) (after (startGame alice 3) funded) = Some GameAlreadyActive \<and>
   failure (submitGuess alice 7 [1]) funded = Some NoActiveGame \<and>
   after (submitGuess alice 7 [1]) funded = funded"
  using wrong_state_calls_fail [of pending alice 2 2 7 "[1]"]
    wrong_state_calls_fail [of funded alice 3 2 7 "[1]"]
  by (simp add: pending_eval funded_eval)

section \<open>The roll\<close>

text \<open>
  C8. \<^verbatim>\<open>startGame\<close> in an idle account succeeds, and for every value \<open>v < 6\<close> the
  engine can draw, the roll it stores decrypts to \<open>v + 1\<close>, without overflow in 8 bits:
  a value from 1 to 6.
\<close>

theorem startGame_roll_domain:
  assumes "\<not> gameActive s a" and "v < 6"
  shows "failure (startGame a v) s = None \<and>
    unat (dec8 (lastRoll (after (startGame a v) s) a)) = unat v + 1 \<and>
    1 \<le> dec8 (lastRoll (after (startGame a v) s) a) \<and>
    dec8 (lastRoll (after (startGame a v) s) a) \<le> 6"
proof -
  have roll: "dec8 (lastRoll (after (startGame a v) s) a) = v + 1"
    and ok: "failure (startGame a v) s = None"
    using assms(1) by (simp_all add: tx_defs startGame_def engine_defs Let_def)
  from assms(2) have small: "unat v < 6"
    by (simp add: word_less_nat_alt)
  then have u: "unat (v + 1) = unat v + 1"
    by (simp add: unat_word_ariths)
  from u small have "1 \<le> unat (v + 1)" "unat (v + 1) \<le> 6" by simp_all
  then have "1 \<le> v + 1" "v + 1 \<le> 6"
    by (simp_all add: word_le_nat_alt)
  with roll ok u show ?thesis by simp
qed

theorem startGame_roll_domain_witness:
  "\<not> gameActive funded alice \<and> (3 :: 8 word) < 6 \<and>
   failure (startGame alice 3) funded = None \<and>
   dec8 (lastRoll (after (startGame alice 3) funded) alice) = 4"
  using startGame_roll_domain [of funded alice 3]
  by (simp add: funded_eval pending_def [symmetric] pending_eval)

section \<open>What the transitions leave alone\<close>

text \<open>
  C9. Whether it succeeds or fails, \<^verbatim>\<open>buyPoints\<close> leaves the \<open>gameActive\<close> flag and the
  \<open>lastRoll\<close>, \<open>lastOutcome\<close>, \<open>lastReward\<close> and \<open>roundEligible\<close> handles of every
  account as they were, and of the balances it changes at most the sender's. Whether it
  succeeds does not depend on the state it is called in, idle or pending.
\<close>

theorem buyPoints_frame:
  "gameActive (after (buyPoints a e) s) = gameActive s \<and>
   lastRoll (after (buyPoints a e) s) = lastRoll s \<and>
   lastOutcome (after (buyPoints a e) s) = lastOutcome s \<and>
   lastReward (after (buyPoints a e) s) = lastReward s \<and>
   roundEligible (after (buyPoints a e) s) = roundEligible s \<and>
   balances (after (buyPoints a e) s) = (balances s)(a := balances (after (buyPoints a e) s) a) \<and>
   failure (buyPoints a e) s = failure (buyPoints a e) s'"
  by (simp add: tx_defs buyPoints_def engine_defs Let_def)

theorem buyPoints_frame_witness:
  "gameActive (after (buyPoints alice 1000000000000000000) pending) alice \<and>
   lastRoll (after (buyPoints alice 1000000000000000000) pending) = lastRoll pending \<and>
   roundEligible (after (buyPoints alice 1000000000000000000) pending) = roundEligible pending \<and>
   failure (buyPoints alice 1000000000000000000) pending = None \<and>
   failure (buyPoints alice 1) pending = Some AmountTooSmall"
  using buyPoints_frame [of alice 1000000000000000000 pending "init oneGuess"]
    buyPoints_frame [of alice 1 pending "init oneGuess"]
  by (simp add: pending_eval funded_eval init_buy_eval)

text \<open>
  C10. \<^verbatim>\<open>startGame\<close> leaves the \<open>lastOutcome\<close> and \<open>lastReward\<close> handles of every account
  as they were, and removes no grant: while the round is pending, the two fields of the
  account still decrypt to the outcome and the reward of the round resolved before (or, if
  none was, to the defaults of the handle never written).
\<close>

theorem startGame_keeps_last_result:
  "lastOutcome (after (startGame a v) s) = lastOutcome s \<and>
   lastReward (after (startGame a v) s) = lastReward s \<and>
   decBool (lastOutcome (after (startGame a v) s) a) = decBool (lastOutcome s a) \<and>
   dec64 (lastReward (after (startGame a v) s) a) = dec64 (lastReward s a) \<and>
   acl s \<subseteq> acl (after (startGame a v) s)"
  by (auto simp add: tx_defs startGame_def engine_defs Let_def)

theorem startGame_keeps_last_result_witness:
  "failure (startGame alice 3) funded = None \<and>
   lastOutcome pending = lastOutcome funded \<and>
   lastReward pending = lastReward funded \<and>
   \<not> decBool (lastOutcome pending alice) \<and>
   dec64 (lastReward pending alice) = 0"
  using startGame_keeps_last_result [of alice 3 funded]
  by (simp add: pending_eval pending_def [symmetric] funded_last_eval)

section \<open>The client and the handle never written\<close>

lemma refresh_no_activity:
  assumes "canDecrypt e" and "readContract e = Some r"
    and "encryptedBalance r = ZERO_HASH" "encryptedRoll r = ZERO_HASH"
        "encryptedOutcome r = ZERO_HASH" "encryptedReward r = ZERO_HASH"
  shows "refreshPlayerData e st =
     (st\<lparr>gameActive_ui := active r, balance := Some ''0'', lastRoll_ui := None,
         lastOutcome_ui := None, lastReward_ui := Some ''0'', isBusy_refresh := False\<rparr>, [])"
  using assms by (simp add: refreshPlayerData_def canDecrypt_def canUseWallet_def)

text \<open>The batches a refresh sends: at most one, the handles that are not the zero hash.\<close>

lemma refresh_sent:
  "snd (refreshPlayerData e st) =
     (case readContract e of
        None \<Rightarrow> []
      | Some r \<Rightarrow>
          if canDecrypt e \<and> resolvedSigner e \<and> nonSentinel r \<noteq> []
          then [map (\<lambda>h. (h, CONTRACT_ADDRESS e)) (nonSentinel r)] else [])"
  by (simp add: refreshPlayerData_def decryptHandles_def canDecrypt_def canUseWallet_def Let_def
      nonSentinel_def split_beta split: option.splits del: filter.simps)

lemma refresh_decoded:
  assumes "canDecrypt e" and "readContract e = Some r" and "resolvedSigner e"
    and "nonSentinel r \<noteq> []"
    and "userDecrypt e (map (\<lambda>h. (h, CONTRACT_ADDRESS e)) (nonSentinel r)) = Some resp"
  shows "fst (refreshPlayerData e st) =
     (decode e r resp (st\<lparr>isBusy_refresh := True, gameActive_ui := active r\<rparr>))
       \<lparr>isBusy_refresh := False\<rparr>"
  using assms
  by (simp add: refreshPlayerData_def decryptHandles_def canDecrypt_def canUseWallet_def Let_def
      nonSentinel_def split_beta del: filter.simps)

lemma decode_fields:
  "balance (decode e r resp st) =
     (if encryptedBalance r = ZERO_HASH then Some ''0''
      else Some (case resp (encryptedBalance r) of None \<Rightarrow> ''0'' | Some v \<Rightarrow> v))"
  "lastRoll_ui (decode e r resp st) =
     (if encryptedRoll r = ZERO_HASH then None
      else case resp (encryptedRoll r) of
             None \<Rightarrow> None
           | Some rawRoll \<Rightarrow> if rawRoll = [] then None else Some (Number e rawRoll))"
  "lastOutcome_ui (decode e r resp st) =
     (if encryptedOutcome r = ZERO_HASH then None
      else case resp (encryptedOutcome r) of
             None \<Rightarrow> lastOutcome_ui st
           | Some rawOutcome \<Rightarrow> Some (rawOutcome = ''1''))"
  "lastReward_ui (decode e r resp st) =
     (if encryptedReward r = ZERO_HASH then Some ''0''
      else Some (case resp (encryptedReward r) of None \<Rightarrow> ''0'' | Some v \<Rightarrow> v))"
  by (simp_all add: decode_def Let_def split: option.splits)

lemma nonSentinel_set: "ZERO_HASH \<notin> set (nonSentinel r)"
  by (simp add: nonSentinel_def del: filter.simps)

text \<open>
  C7. For a client that can decrypt and whose contract reads succeed: when the four
  handles read are the zero hash, \<^verbatim>\<open>refreshPlayerData\<close> sends no batch to the
  decryption service and sets the balance to \<^verbatim>\<open>'0'\<close>, the roll and the outcome to
  \<^verbatim>\<open>null\<close> and the reward to \<^verbatim>\<open>'0'\<close>; when some handle is not the zero hash and the
  signer is there, it sends one batch, the handles that are not the zero hash, and sets
  each field from the response at its handle (a field whose handle is the zero hash gets
  its default; so does one whose handle is missing from the response, but for the outcome,
  which keeps its value). In every refresh, no batch sent holds the zero hash.
\<close>

theorem refreshPlayerData_sentinels:
  "(canDecrypt e \<and> readContract e = Some r \<longrightarrow>
      (encryptedBalance r = ZERO_HASH \<and> encryptedRoll r = ZERO_HASH \<and>
       encryptedOutcome r = ZERO_HASH \<and> encryptedReward r = ZERO_HASH \<longrightarrow>
         snd (refreshPlayerData e st) = [] \<and>
         balance (fst (refreshPlayerData e st)) = Some ''0'' \<and>
         lastRoll_ui (fst (refreshPlayerData e st)) = None \<and>
         lastOutcome_ui (fst (refreshPlayerData e st)) = None \<and>
         lastReward_ui (fst (refreshPlayerData e st)) = Some ''0'') \<and>
      (resolvedSigner e \<and> nonSentinel r \<noteq> [] \<and>
       userDecrypt e (map (\<lambda>h. (h, CONTRACT_ADDRESS e)) (nonSentinel r)) = Some resp \<longrightarrow>
         snd (refreshPlayerData e st) = [map (\<lambda>h. (h, CONTRACT_ADDRESS e)) (nonSentinel r)] \<and>
         balance (fst (refreshPlayerData e st)) =
           (if encryptedBalance r = ZERO_HASH then Some ''0''
            else Some (case resp (encryptedBalance r) of None \<Rightarrow> ''0'' | Some v \<Rightarrow> v)) \<and>
         lastRoll_ui (fst (refreshPlayerData e st)) =
           (if encryptedRoll r = ZERO_HASH then None
            else case resp (encryptedRoll r) of
                   None \<Rightarrow> None
                 | Some rawRoll \<Rightarrow> if rawRoll = [] then None else Some (Number e rawRoll)) \<and>
         lastOutcome_ui (fst (refreshPlayerData e st)) =
           (if encryptedOutcome r = ZERO_HASH then None
            else case resp (encryptedOutcome r) of
                   None \<Rightarrow> lastOutcome_ui st
                 | Some rawOutcome \<Rightarrow> Some (rawOutcome = ''1'')) \<and>
         lastReward_ui (fst (refreshPlayerData e st)) =
           (if encryptedReward r = ZERO_HASH then Some ''0''
            else Some (case resp (encryptedReward r) of None \<Rightarrow> ''0'' | Some v \<Rightarrow> v)))) \<and>
   (\<forall>batch \<in> set (snd (refreshPlayerData e st)). \<forall>p \<in> set batch. fst p \<noteq> ZERO_HASH)"
proof (intro conjI impI)
  assume a: "canDecrypt e \<and> readContract e = Some r"
    and z: "encryptedBalance r = ZERO_HASH \<and> encryptedRoll r = ZERO_HASH \<and>
       encryptedOutcome r = ZERO_HASH \<and> encryptedReward r = ZERO_HASH"
  then have r: "refreshPlayerData e st =
     (st\<lparr>gameActive_ui := active r, balance := Some ''0'', lastRoll_ui := None,
         lastOutcome_ui := None, lastReward_ui := Some ''0'', isBusy_refresh := False\<rparr>, [])"
    by (simp add: refresh_no_activity)
  show "snd (refreshPlayerData e st) = []"
    "balance (fst (refreshPlayerData e st)) = Some ''0''"
    "lastRoll_ui (fst (refreshPlayerData e st)) = None"
    "lastOutcome_ui (fst (refreshPlayerData e st)) = None"
    "lastReward_ui (fst (refreshPlayerData e st)) = Some ''0''"
    by (simp_all add: r)
next
  assume a: "canDecrypt e \<and> readContract e = Some r"
    and d: "resolvedSigner e \<and> nonSentinel r \<noteq> [] \<and>
       userDecrypt e (map (\<lambda>h. (h, CONTRACT_ADDRESS e)) (nonSentinel r)) = Some resp"
  then have f: "fst (refreshPlayerData e st) =
     (decode e r resp (st\<lparr>isBusy_refresh := True, gameActive_ui := active r\<rparr>))
       \<lparr>isBusy_refresh := False\<rparr>"
    by (simp add: refresh_decoded)
  from a d show "snd (refreshPlayerData e st)
      = [map (\<lambda>h. (h, CONTRACT_ADDRESS e)) (nonSentinel r)]"
    by (simp add: refresh_sent)
  show "balance (fst (refreshPlayerData e st)) =
           (if encryptedBalance r = ZERO_HASH then Some ''0''
            else Some (case resp (encryptedBalance r) of None \<Rightarrow> ''0'' | Some v \<Rightarrow> v))"
    by (simp add: f decode_fields)
  show "lastRoll_ui (fst (refreshPlayerData e st)) =
           (if encryptedRoll r = ZERO_HASH then None
            else case resp (encryptedRoll r) of
                   None \<Rightarrow> None
                 | Some rawRoll \<Rightarrow> if rawRoll = [] then None else Some (Number e rawRoll))"
    by (simp add: f decode_fields)
  show "lastOutcome_ui (fst (refreshPlayerData e st)) =
           (if encryptedOutcome r = ZERO_HASH then None
            else case resp (encryptedOutcome r) of
                   None \<Rightarrow> lastOutcome_ui st
                 | Some rawOutcome \<Rightarrow> Some (rawOutcome = ''1''))"
    by (simp add: f decode_fields split: option.splits)
  show "lastReward_ui (fst (refreshPlayerData e st)) =
           (if encryptedReward r = ZERO_HASH then Some ''0''
            else Some (case resp (encryptedReward r) of None \<Rightarrow> ''0'' | Some v \<Rightarrow> v))"
    by (simp add: f decode_fields)
next
  show "\<forall>batch \<in> set (snd (refreshPlayerData e st)). \<forall>p \<in> set batch. fst p \<noteq> ZERO_HASH"
    using nonSentinel_set by (auto simp add: refresh_sent split: option.splits if_splits)
qed

theorem refreshPlayerData_sentinels_witness:
  "canDecrypt newcomer \<and> readContract newcomer = Some noActivity \<and>
   snd (refreshPlayerData newcomer blank) = [] \<and>
   balance (fst (refreshPlayerData newcomer blank)) = Some ''0'' \<and>
   lastRoll_ui (fst (refreshPlayerData newcomer blank)) = None \<and>
   lastOutcome_ui (fst (refreshPlayerData newcomer blank)) = None \<and>
   lastReward_ui (fst (refreshPlayerData newcomer blank)) = Some ''0'' \<and>
   canDecrypt player \<and> readContract player = Some midRound \<and>
   snd (refreshPlayerData player blank) = [[(''0xb1'', ''0xC0''), (''0xd4'', ''0xC0'')]] \<and>
   balance (fst (refreshPlayerData player blank)) = Some ''999900'' \<and>
   lastRoll_ui (fst (refreshPlayerData player blank)) = Some 4 \<and>
   lastOutcome_ui (fst (refreshPlayerData player blank)) = None \<and>
   lastReward_ui (fst (refreshPlayerData player blank)) = Some ''0''"
  using refreshPlayerData_sentinels [of newcomer noActivity blank relayer]
    refreshPlayerData_sentinels [of player midRound blank relayer]
  by (simp add: newcomer_eval player_eval example_handles)

end
